theory Spec2Isabelle
  imports Main "HOL-Library.Word"
begin

unbundle bit_operations_syntax

section \<open>Byte strings and errors\<close>

text \<open>
  Python's \<open>bytes\<close> is a sequence of octets; the exceptions that the two functions of
  \<open>argon2_secure_kdf.py\<close> can leave through are values of \<open>kdf_error\<close>. The source raises
  \<open>ValueError\<close> itself (with a message), \<open>str.encode\<close> raises \<open>UnicodeEncodeError\<close>, and
  whatever the external Argon2 binding raises passes through unchanged
  (\<open>PrimitiveError\<close>, tagged with the binding's own error value).
\<close>

type_synonym byte = "8 word"
type_synonym bytes = "byte list"
type_synonym u32 = "32 word"

datatype 'e kdf_error =
    ValueError string
  | UnicodeEncodeError
  | PrimitiveError 'e

section \<open>hashlib.sha256\<close>

text \<open>
  \<open>hashlib.sha256(data).digest()\<close> is SHA-256 of FIPS 180-4 over the octets of \<open>data\<close>:
  padding to a multiple of 64 octets, sixteen big-endian 32-bit words per block, the
  64-round compression function, and the eight chaining words written out big-endian.
\<close>

definition rotr :: "nat \<Rightarrow> u32 \<Rightarrow> u32" where
  "rotr n x = drop_bit n x OR push_bit (32 - n) x"

definition Ch :: "u32 \<Rightarrow> u32 \<Rightarrow> u32 \<Rightarrow> u32" where
  "Ch x y z = (x AND y) XOR (NOT x AND z)"

definition Maj :: "u32 \<Rightarrow> u32 \<Rightarrow> u32 \<Rightarrow> u32" where
  "Maj x y z = (x AND y) XOR (x AND z) XOR (y AND z)"

definition big_sigma0 :: "u32 \<Rightarrow> u32" where
  "big_sigma0 x = rotr 2 x XOR rotr 13 x XOR rotr 22 x"

definition big_sigma1 :: "u32 \<Rightarrow> u32" where
  "big_sigma1 x = rotr 6 x XOR rotr 11 x XOR rotr 25 x"

definition small_sigma0 :: "u32 \<Rightarrow> u32" where
  "small_sigma0 x = rotr 7 x XOR rotr 18 x XOR drop_bit 3 x"

definition small_sigma1 :: "u32 \<Rightarrow> u32" where
  "small_sigma1 x = rotr 17 x XOR rotr 19 x XOR drop_bit 10 x"

definition round_constants :: "u32 list" where
  "round_constants =
    [0x428A2F98, 0x71374491, 0xB5C0FBCF, 0xE9B5DBA5, 0x3956C25B, 0x59F111F1, 0x923F82A4,
     0xAB1C5ED5, 0xD807AA98, 0x12835B01, 0x243185BE, 0x550C7DC3, 0x72BE5D74, 0x80DEB1FE,
     0x9BDC06A7, 0xC19BF174, 0xE49B69C1, 0xEFBE4786, 0x0FC19DC6, 0x240CA1CC, 0x2DE92C6F,
     0x4A7484AA, 0x5CB0A9DC, 0x76F988DA, 0x983E5152, 0xA831C66D, 0xB00327C8, 0xBF597FC7,
     0xC6E00BF3, 0xD5A79147, 0x06CA6351, 0x14292967, 0x27B70A85, 0x2E1B2138, 0x4D2C6DFC,
     0x53380D13, 0x650A7354, 0x766A0ABB, 0x81C2C92E, 0x92722C85, 0xA2BFE8A1, 0xA81A664B,
     0xC24B8B70, 0xC76C51A3, 0xD192E819, 0xD6990624, 0xF40E3585, 0x106AA070, 0x19A4C116,
     0x1E376C08, 0x2748774C, 0x34B0BCB5, 0x391C0CB3, 0x4ED8AA4A, 0x5B9CCA4F, 0x682E6FF3,
     0x748F82EE, 0x78A5636F, 0x84C87814, 0x8CC70208, 0x90BEFFFA, 0xA4506CEB, 0xBEF9A3F7,
     0xC67178F2]"

type_synonym chaining = "u32 \<times> u32 \<times> u32 \<times> u32 \<times> u32 \<times> u32 \<times> u32 \<times> u32"

definition initial_chaining :: chaining where
  "initial_chaining =
    (0x6A09E667, 0xBB67AE85, 0x3C6EF372, 0xA54FF53A,
     0x510E527F, 0x9B05688C, 0x1F83D9AB, 0x5BE0CD19)"

text \<open>The message schedule: the sixteen words of the block, extended to sixty-four.\<close>

fun extend_schedule :: "nat \<Rightarrow> u32 list \<Rightarrow> u32 list" where
  "extend_schedule 0 W = W"
| "extend_schedule (Suc n) W =
     (let t = length W
      in extend_schedule n
           (W @ [small_sigma1 (W ! (t - 2)) + W ! (t - 7)
                 + small_sigma0 (W ! (t - 15)) + W ! (t - 16)]))"

fun sha256_round :: "chaining \<Rightarrow> u32 \<times> u32 \<Rightarrow> chaining" where
  "sha256_round (a, b, c, d, e, f, g, h) (k, w) =
     (let T1 = h + big_sigma1 e + Ch e f g + k + w;
          T2 = big_sigma0 a + Maj a b c
      in (T1 + T2, a, b, c, d + T1, e, f, g))"

fun add_chaining :: "chaining \<Rightarrow> chaining \<Rightarrow> chaining" where
  "add_chaining (a, b, c, d, e, f, g, h) (a', b', c', d', e', f', g', h') =
     (a + a', b + b', c + c', d + d', e + e', f + f', g + g', h + h')"

definition compress :: "chaining \<Rightarrow> u32 list \<Rightarrow> chaining" where
  "compress H M =
     add_chaining H (foldl sha256_round H (zip round_constants (extend_schedule 48 M)))"

text \<open>Octets to words and back, big-endian.\<close>

definition be_word :: "bytes \<Rightarrow> u32" where
  "be_word bs = foldl (\<lambda>acc b. push_bit 8 acc OR ucast b) 0 bs"

definition word_bytes :: "u32 \<Rightarrow> bytes" where
  "word_bytes w = [ucast (drop_bit 24 w), ucast (drop_bit 16 w), ucast (drop_bit 8 w), ucast w]"

definition length_bytes :: "nat \<Rightarrow> bytes" where
  "length_bytes n =
     (let L = (word_of_nat (8 * n) :: 64 word)
      in map (\<lambda>i. ucast (drop_bit (8 * i) L)) [7, 6, 5, 4, 3, 2, 1, 0])"

fun chunks :: "nat \<Rightarrow> 'a list \<Rightarrow> 'a list list" where
  "chunks n xs = (if n = 0 \<or> xs = [] then [] else take n xs # chunks n (drop n xs))"

definition pad :: "bytes \<Rightarrow> bytes" where
  "pad msg =
     msg @ [0x80] @ replicate ((119 - length msg mod 64) mod 64) 0 @ length_bytes (length msg)"

definition block_words :: "bytes \<Rightarrow> u32 list" where
  "block_words blk = map be_word (chunks 4 blk)"

fun chaining_bytes :: "chaining \<Rightarrow> bytes" where
  "chaining_bytes (a, b, c, d, e, f, g, h) =
     concat (map word_bytes [a, b, c, d, e, f, g, h])"

definition sha256 :: "bytes \<Rightarrow> bytes" where
  "sha256 msg =
     chaining_bytes (foldl compress initial_chaining (map block_words (chunks 64 (pad msg))))"

section \<open>hmac.new(key, msg, digestmod).digest()\<close>

text \<open>
  Python's \<open>hmac\<close> module (RFC 2104): a key longer than the digest's block size is hashed
  first, the key is right-padded with zero octets to the block size, and the digest is
  \<open>H((key xor opad) || H((key xor ipad) || msg))\<close> with \<open>ipad = 0x36\<close> and \<open>opad = 0x5C\<close>.
  \<open>hashlib.sha256\<close> has block size 64.
\<close>

definition hmac_digest :: "(bytes \<Rightarrow> bytes) \<Rightarrow> nat \<Rightarrow> bytes \<Rightarrow> bytes \<Rightarrow> bytes" where
  "hmac_digest H block_size key msg =
     (let key' = (if length key > block_size then H key else key);
          padded = key' @ replicate (block_size - length key') 0
      in H (map (\<lambda>b. b XOR 0x5C) padded @ H (map (\<lambda>b. b XOR 0x36) padded @ msg)))"

definition hmac_sha256 :: "bytes \<Rightarrow> bytes \<Rightarrow> bytes" where
  "hmac_sha256 key msg = hmac_digest sha256 64 key msg"

section \<open>randomize_salt\<close>

text \<open>
  \<^verbatim>\<open>
  def randomize_salt(user_salt: bytes) -> bytes:
      if not user_salt:
          raise ValueError("User-provided salt must not be empty.")
      prf = hmac.new(hashlib.sha256(user_salt).digest(), user_salt, hashlib.sha256)
      return prf.digest()
  \<close>
  \<open>not user_salt\<close> is true of a \<open>bytes\<close> value exactly when it is empty.
\<close>

definition randomize_salt :: "bytes \<Rightarrow> 'e kdf_error + bytes" where
  "randomize_salt user_salt =
     (if user_salt = [] then Inl (ValueError ''User-provided salt must not be empty.'')
      else let prf = hmac_sha256 (sha256 user_salt) user_salt
           in Inr prf)"

text \<open>
  The construction in the words of the specification, over any hash and any keyed PRF:
  derive the internal key \<open>K = Hash(seed)\<close>, then output \<open>KeyedPRF(K, seed)\<close>.
\<close>

definition self_keyed_expansion ::
  "(bytes \<Rightarrow> bytes) \<Rightarrow> (bytes \<Rightarrow> bytes \<Rightarrow> bytes) \<Rightarrow> bytes \<Rightarrow> bytes" where
  "self_keyed_expansion Hash KeyedPRF seed = (let K = Hash seed in KeyedPRF K seed)"

section \<open>str.encode('utf-8')\<close>

text \<open>
  A Python \<open>str\<close> is a sequence of Unicode code points (naturals below \<open>0x110000\<close>). The
  strict UTF-8 codec writes one to four octets per code point and raises
  \<open>UnicodeEncodeError\<close> on a surrogate (\<open>U+D800\<close> to \<open>U+DFFF\<close>), so the encoding is a
  partial function: \<open>None\<close> is the raise.
\<close>

type_synonym str = "nat list"

definition utf8_char :: "nat \<Rightarrow> bytes option" where
  "utf8_char c =
     (if c < 0x80 then Some [of_nat c]
      else if c < 0x800 then
        Some [of_nat (0xC0 + c div 0x40), of_nat (0x80 + c mod 0x40)]
      else if 0xD800 \<le> c \<and> c \<le> 0xDFFF then None
      else if c < 0x10000 then
        Some [of_nat (0xE0 + c div 0x1000), of_nat (0x80 + c div 0x40 mod 0x40),
              of_nat (0x80 + c mod 0x40)]
      else
        Some [of_nat (0xF0 + c div 0x40000), of_nat (0x80 + c div 0x1000 mod 0x40),
              of_nat (0x80 + c div 0x40 mod 0x40), of_nat (0x80 + c mod 0x40)])"

fun utf8_encode :: "str \<Rightarrow> bytes option" where
  "utf8_encode [] = Some []"
| "utf8_encode (c # cs) =
     (case utf8_char c of
        None \<Rightarrow> None
      | Some bs \<Rightarrow> (case utf8_encode cs of None \<Rightarrow> None | Some rest \<Rightarrow> Some (bs @ rest)))"

section \<open>derive_key\<close>

text \<open>
  \<open>argon2.low_level.hash_secret_raw\<close> is the external Argon2 binding; it is not part of
  the repository, so \<open>derive_key\<close> takes it as a parameter: a function of the secret, the
  salt, the four cost parameters and the variant, which returns the raw hash or raises
  an error of its own. \<open>argon2.low_level.Type\<close> is the enumeration of the variants.
\<close>

datatype argon2_type = Type_D | Type_I | Type_ID

type_synonym 'e primitive =
  "bytes \<Rightarrow> bytes \<Rightarrow> int \<Rightarrow> int \<Rightarrow> int \<Rightarrow> int \<Rightarrow> argon2_type \<Rightarrow> 'e + bytes"

text \<open>
  \<^verbatim>\<open>
  def derive_key(password: str, salt: bytes, time_cost: int = 2,
                 memory_cost: int = 102400, parallelism: int = 8,
                 hash_len: int = 32) -> bytes:
      if not salt:
          raise ValueError("Salt must be provided and cannot be empty.")
      derived_key = hash_secret_raw(
          secret=password.encode('utf-8'), salt=salt,
          time_cost=time_cost, memory_cost=memory_cost,
          parallelism=parallelism, hash_len=hash_len, type=Type.ID)
      return derived_key
  \<close>
  The salt is checked first; the arguments of the call are evaluated next, so a password
  without a UTF-8 encoding raises before the binding is entered; an error of the
  binding leaves \<open>derive_key\<close> as it is.
\<close>

definition derive_key ::
  "'e primitive \<Rightarrow> str \<Rightarrow> bytes \<Rightarrow> int \<Rightarrow> int \<Rightarrow> int \<Rightarrow> int \<Rightarrow> 'e kdf_error + bytes" where
  "derive_key hash_secret_raw password salt time_cost memory_cost parallelism hash_len =
     (if salt = [] then Inl (ValueError ''Salt must be provided and cannot be empty.'')
      else case utf8_encode password of
        None \<Rightarrow> Inl UnicodeEncodeError
      | Some secret \<Rightarrow>
          (case hash_secret_raw secret salt time_cost memory_cost parallelism hash_len Type_ID of
             Inl e \<Rightarrow> Inl (PrimitiveError e)
           | Inr derived_key \<Rightarrow> Inr derived_key))"

text \<open>
  A call site binds the keyword parameters: an omitted one (\<open>None\<close>) takes the default
  of the signature.
\<close>

definition derive_key_call ::
  "'e primitive \<Rightarrow> str \<Rightarrow> bytes \<Rightarrow> int option \<Rightarrow> int option \<Rightarrow> int option \<Rightarrow> int option
     \<Rightarrow> 'e kdf_error + bytes" where
  "derive_key_call hash_secret_raw password salt time_cost memory_cost parallelism hash_len =
     derive_key hash_secret_raw password salt
       (case time_cost of None \<Rightarrow> 2 | Some t \<Rightarrow> t)
       (case memory_cost of None \<Rightarrow> 102400 | Some m \<Rightarrow> m)
       (case parallelism of None \<Rightarrow> 8 | Some p \<Rightarrow> p)
       (case hash_len of None \<Rightarrow> 32 | Some h \<Rightarrow> h)"

section \<open>The contract of the external primitive\<close>

text \<open>
  Modelled from the spec: the errors of the external memory-hard primitive. The binding's
  code is not in the repository; the specification names two ways it can fail, a
  rejection of the cost parameters and a failure to allocate the working memory.
\<close>

datatype primitive_error = InvalidParameterError | ResourceExhaustedError

text \<open>
  Modelled from the spec: the primitive rejects a non-positive cost parameter
  (\<open>time_cost\<close>, \<open>memory_cost\<close> or \<open>parallelism\<close>) with \<open>InvalidParameterError\<close>, whatever
  the other arguments are.
\<close>

definition rejects_nonpositive_cost :: "primitive_error primitive \<Rightarrow> bool" where
  "rejects_nonpositive_cost prim \<longleftrightarrow>
     (\<forall>secret salt t m p h ty.
        t \<le> 0 \<or> m \<le> 0 \<or> p \<le> 0 \<longrightarrow> prim secret salt t m p h ty = Inl InvalidParameterError)"

text \<open>
  Modelled from the spec: a hash the primitive returns has exactly \<open>hash_len\<close> octets.
\<close>

definition returns_hash_len :: "'e primitive \<Rightarrow> bool" where
  "returns_hash_len prim \<longleftrightarrow>
     (\<forall>secret salt t m p h ty out.
        prim secret salt t m p h ty = Inr out \<longrightarrow> int (length out) = h)"

text \<open>
  A sample primitive for the closed examples below. It is not Argon2: it checks the
  parameters as the contract says and returns \<open>hash_len\<close> zero octets. It shows that the
  two contracts can be met together and gives the examples a primitive to call.
\<close>

definition sample_primitive :: "primitive_error primitive" where
  "sample_primitive secret salt t m p h ty =
     (if t \<le> 0 \<or> m \<le> 0 \<or> p \<le> 0 \<or> h \<le> 0 then Inl InvalidParameterError
      else Inr (replicate (nat h) 0))"

section \<open>Calls in a state\<close>

text \<open>
  Whether two calls end alike is a statement about what a call can read beyond its
  arguments, so both functions are given once more as state transformers. For
  \<open>randomize_salt\<close> the state is the store of HMAC objects: \<open>hmac.new\<close> allocates an object
  that holds the octets its inner and its outer hash have absorbed, \<open>prf\<close> is a reference
  to it, and \<open>prf.digest()\<close> reads the object at that reference (references are made
  by \<open>hmac_new\<close> only, so they are always in range). \<open>hashlib.sha256\<close> as a \<open>digestmod\<close> is
  the hash with its block size.
\<close>

record hmac_object =
  inner_absorbed :: bytes
  outer_absorbed :: bytes

type_synonym store = "hmac_object list"

definition hashlib_sha256 :: "(bytes \<Rightarrow> bytes) \<times> nat" where
  "hashlib_sha256 = (sha256, 64)"

definition hmac_new ::
  "bytes \<Rightarrow> bytes \<Rightarrow> (bytes \<Rightarrow> bytes) \<times> nat \<Rightarrow> store \<Rightarrow> nat \<times> store" where
  "hmac_new key msg digestmod objects =
     (let (H, block_size) = digestmod;
          key' = (if length key > block_size then H key else key);
          padded = key' @ replicate (block_size - length key') 0;
          obj = \<lparr>inner_absorbed = map (\<lambda>b. b XOR 0x36) padded @ msg,
                 outer_absorbed = map (\<lambda>b. b XOR 0x5C) padded\<rparr>
      in (length objects, objects @ [obj]))"

definition hmac_object_digest :: "(bytes \<Rightarrow> bytes) \<times> nat \<Rightarrow> store \<Rightarrow> nat \<Rightarrow> bytes" where
  "hmac_object_digest digestmod objects ref =
     (let (H, block_size) = digestmod; obj = objects ! ref
      in H (outer_absorbed obj @ H (inner_absorbed obj)))"

definition randomize_salt_st :: "bytes \<Rightarrow> store \<Rightarrow> ('e kdf_error + bytes) \<times> store" where
  "randomize_salt_st user_salt objects =
     (if user_salt = [] then
        (Inl (ValueError ''User-provided salt must not be empty.''), objects)
      else let (prf, objects') = hmac_new (sha256 user_salt) user_salt hashlib_sha256 objects
           in (Inr (hmac_object_digest hashlib_sha256 objects' prf), objects'))"

text \<open>
  For \<open>derive_key\<close> the state is the environment of the external binding, of any type:
  the binding may read it and change it (the memory it can allocate, for one), and
  \<open>derive_key\<close> itself keeps no state.
\<close>

type_synonym ('e, 'w) primitive_st =
  "bytes \<Rightarrow> bytes \<Rightarrow> int \<Rightarrow> int \<Rightarrow> int \<Rightarrow> int \<Rightarrow> argon2_type \<Rightarrow> 'w \<Rightarrow> ('e + bytes) \<times> 'w"

definition derive_key_st ::
  "('e, 'w) primitive_st \<Rightarrow> str \<Rightarrow> bytes \<Rightarrow> int \<Rightarrow> int \<Rightarrow> int \<Rightarrow> int \<Rightarrow> 'w
     \<Rightarrow> ('e kdf_error + bytes) \<times> 'w" where
  "derive_key_st hash_secret_raw password salt time_cost memory_cost parallelism hash_len env =
     (if salt = [] then
        (Inl (ValueError ''Salt must be provided and cannot be empty.''), env)
      else case utf8_encode password of
        None \<Rightarrow> (Inl UnicodeEncodeError, env)
      | Some secret \<Rightarrow>
          (case hash_secret_raw secret salt time_cost memory_cost parallelism hash_len Type_ID env of
             (Inl e, env') \<Rightarrow> (Inl (PrimitiveError e), env')
           | (Inr derived_key, env') \<Rightarrow> (Inr derived_key, env')))"

text \<open>
  Modelled from the spec: the external primitive is deterministic. What a call of it
  returns or raises is fixed by its arguments and does not depend on the environment
  in which it runs (identical inputs and parameters always yield the identical key, and
  a failed derivation retried with the same parameters fails identically).
\<close>

definition deterministic_primitive :: "('e, 'w) primitive_st \<Rightarrow> bool" where
  "deterministic_primitive prim \<longleftrightarrow>
     (\<forall>secret salt t m p h ty env1 env2.
        fst (prim secret salt t m p h ty env1) = fst (prim secret salt t m p h ty env2))"

text \<open>
  The sample primitive in an environment that counts the calls made so far: every call
  changes the environment, and none reads it.
\<close>

definition counting_primitive :: "(primitive_error, nat) primitive_st" where
  "counting_primitive secret salt t m p h ty calls =
     (sample_primitive secret salt t m p h ty, Suc calls)"

section \<open>Auxiliary facts\<close>

lemma length_word_bytes: "length (word_bytes w) = 4"
  by (simp add: word_bytes_def)

lemma length_chaining_bytes: "length (chaining_bytes H) = 32"
  by (cases H rule: chaining_bytes.cases) (simp add: length_word_bytes)

lemma length_sha256: "length (sha256 msg) = 32"
  by (simp add: sha256_def length_chaining_bytes)

lemma length_hmac_sha256: "length (hmac_sha256 key msg) = 32"
  by (simp add: hmac_sha256_def hmac_digest_def Let_def length_sha256)

text \<open>
  A SHA-256 digest is shorter than the block, so \<open>hmac.new\<close> never hashes the key of
  \<open>randomize_salt\<close>: it pads it with thirty-two zero octets.
\<close>

lemma hmac_sha256_digest_key:
  "hmac_sha256 (sha256 seed) msg =
     sha256 (map (\<lambda>b. b XOR 0x5C) (sha256 seed @ replicate 32 0)
             @ sha256 (map (\<lambda>b. b XOR 0x36) (sha256 seed @ replicate 32 0) @ msg))"
  by (simp add: hmac_sha256_def hmac_digest_def Let_def length_sha256)

lemma sample_rejects: "rejects_nonpositive_cost sample_primitive"
  by (auto simp: rejects_nonpositive_cost_def sample_primitive_def)

lemma sample_returns: "returns_hash_len sample_primitive"
  by (auto simp: returns_hash_len_def sample_primitive_def split: if_splits)

lemma utf8_encode_ascii_pw: "utf8_encode [0x70, 0x77] = Some [0x70, 0x77]"
  by (simp add: utf8_char_def)

lemma utf8_encode_beyond_ascii:
  "utf8_encode [0xE9, 0x20AC, 0x1F600] =
     Some [0xC3, 0xA9, 0xE2, 0x82, 0xAC, 0xF0, 0x9F, 0x98, 0x80]"
  by (simp add: utf8_char_def)

lemma utf8_encode_surrogate: "utf8_encode [0xD800] = None"
  by (simp add: utf8_char_def)

text \<open>A password has no UTF-8 encoding exactly when it holds a surrogate code point.\<close>

lemma utf8_char_None_iff: "utf8_char c = None \<longleftrightarrow> 0xD800 \<le> c \<and> c \<le> 0xDFFF"
  by (simp add: utf8_char_def)

lemma utf8_encode_None_iff:
  "utf8_encode password = None \<longleftrightarrow> (\<exists>c \<in> set password. 0xD800 \<le> c \<and> c \<le> 0xDFFF)"
proof (induction password)
  case Nil
  show ?case by simp
next
  case (Cons c cs)
  show ?case
  proof (cases "utf8_char c")
    case None
    then show ?thesis using utf8_char_None_iff [of c] by simp
  next
    case (Some bs)
    then have "\<not> (0xD800 \<le> c \<and> c \<le> 0xDFFF)"
      using utf8_char_None_iff [of c] by simp
    with Some Cons.IH show ?thesis
      by (auto split: option.splits)
  qed
qed

lemma derive_key_unencodable:
  "salt \<noteq> [] \<Longrightarrow> utf8_encode password = None \<Longrightarrow>
   derive_key prim password salt time_cost memory_cost parallelism hash_len
     = Inl UnicodeEncodeError"
  by (simp add: derive_key_def)

text \<open>
  The state transformers agree with the functions above: the digest read from the
  object that \<open>hmac.new\<close> has just allocated is the HMAC of the message, whatever the
  store held before, and with a binding that leaves the environment alone
  \<open>derive_key_st\<close> is \<open>derive_key\<close>.
\<close>

lemma hmac_new_digest:
  "hmac_new key msg (H, block_size) objects = (ref, objects') \<Longrightarrow>
   hmac_object_digest (H, block_size) objects' ref = hmac_digest H block_size key msg"
  by (auto simp: hmac_new_def hmac_object_digest_def hmac_digest_def Let_def)

lemma randomize_salt_st_result:
  "fst (randomize_salt_st user_salt objects) = randomize_salt user_salt"
  by (auto simp: randomize_salt_st_def randomize_salt_def hashlib_sha256_def hmac_sha256_def
        split: prod.splits dest: hmac_new_digest)

lemma derive_key_st_result:
  "fst (derive_key_st (\<lambda>secret salt t m p h ty env. (prim secret salt t m p h ty, env))
          password salt time_cost memory_cost parallelism hash_len env)
     = derive_key prim password salt time_cost memory_cost parallelism hash_len"
  by (simp add: derive_key_st_def derive_key_def split: option.splits sum.splits)

lemma counting_deterministic: "deterministic_primitive counting_primitive"
  by (simp add: deterministic_primitive_def counting_primitive_def)

section \<open>Test vectors\<close>

text \<open>
  The model of \<open>hashlib.sha256\<close> on the one-block example of FIPS 180-4, the message
  \<open>abc\<close>: the padded block, its compression and the digest \<open>ba7816bf ... f20015ad\<close>.
\<close>

lemma sha256_abc_blocks:
  "map block_words (chunks 64 (pad
     [0x61, 0x62, 0x63])) =
     [[0x61626380, 0x00000000, 0x00000000, 0x00000000, 0x00000000, 0x00000000, 0x00000000,
        0x00000000, 0x00000000, 0x00000000, 0x00000000, 0x00000000, 0x00000000, 0x00000000,
        0x00000000, 0x00000018]]"
  by code_simp

lemma sha256_abc_compress_1:
  "compress initial_chaining
     [0x61626380, 0x00000000, 0x00000000, 0x00000000, 0x00000000, 0x00000000, 0x00000000,
      0x00000000, 0x00000000, 0x00000000, 0x00000000, 0x00000000, 0x00000000, 0x00000000,
      0x00000000, 0x00000018] =
     (0xBA7816BF, 0x8F01CFEA, 0x414140DE, 0x5DAE2223, 0xB00361A3, 0x96177A9C, 0xB410FF61,
      0xF20015AD)"
  by code_simp

lemma sha256_abc_digest:
  "chaining_bytes
     (0xBA7816BF, 0x8F01CFEA, 0x414140DE, 0x5DAE2223, 0xB00361A3, 0x96177A9C, 0xB410FF61,
      0xF20015AD) =
     [0xBA, 0x78, 0x16, 0xBF, 0x8F, 0x01, 0xCF, 0xEA, 0x41, 0x41, 0x40, 0xDE, 0x5D, 0xAE,
      0x22, 0x23, 0xB0, 0x03, 0x61, 0xA3, 0x96, 0x17, 0x7A, 0x9C, 0xB4, 0x10, 0xFF, 0x61,
      0xF2, 0x00, 0x15, 0xAD]"
  by code_simp

lemma sha256_abc:
  "sha256
     [0x61, 0x62, 0x63] =
     [0xBA, 0x78, 0x16, 0xBF, 0x8F, 0x01, 0xCF, 0xEA, 0x41, 0x41, 0x40, 0xDE, 0x5D, 0xAE,
      0x22, 0x23, 0xB0, 0x03, 0x61, 0xA3, 0x96, 0x17, 0x7A, 0x9C, 0xB4, 0x10, 0xFF, 0x61,
      0xF2, 0x00, 0x15, 0xAD]"
  by (simp only: sha256_def sha256_abc_blocks list.map foldl.simps sha256_abc_compress_1 sha256_abc_digest)

text \<open>
  The seed of the example in the source, \<open>User-ID-2\<close>: the internal key (one block), the
  inner hash over the key xor \<open>ipad\<close> followed by the seed (two blocks) and the outer
  hash over the key xor \<open>opad\<close> followed by the inner digest (two blocks). The result
  \<open>19fb70f4 ... 6cb3bde6\<close> is the value of
  \<open>hmac.new(hashlib.sha256(b"User-ID-2").digest(), b"User-ID-2", hashlib.sha256).digest()\<close>.
\<close>

lemma user_id_key_blocks:
  "map block_words (chunks 64 (pad
     [0x55, 0x73, 0x65, 0x72, 0x2D, 0x49, 0x44, 0x2D, 0x32])) =
     [[0x55736572, 0x2D49442D, 0x32800000, 0x00000000, 0x00000000, 0x00000000, 0x00000000,
        0x00000000, 0x00000000, 0x00000000, 0x00000000, 0x00000000, 0x00000000, 0x00000000,
        0x00000000, 0x00000048]]"
  by code_simp

lemma user_id_key_compress_1:
  "compress initial_chaining
     [0x55736572, 0x2D49442D, 0x32800000, 0x00000000, 0x00000000, 0x00000000, 0x00000000,
      0x00000000, 0x00000000, 0x00000000, 0x00000000, 0x00000000, 0x00000000, 0x00000000,
      0x00000000, 0x00000048] =
     (0x79A5C81C, 0x2D1E939C, 0xF1480CC0, 0x60F5795E, 0x00DA416D, 0x2C17DAE4, 0xA31704A0,
      0x85F36977)"
  by code_simp

lemma user_id_key_digest:
  "chaining_bytes
     (0x79A5C81C, 0x2D1E939C, 0xF1480CC0, 0x60F5795E, 0x00DA416D, 0x2C17DAE4, 0xA31704A0,
      0x85F36977) =
     [0x79, 0xA5, 0xC8, 0x1C, 0x2D, 0x1E, 0x93, 0x9C, 0xF1, 0x48, 0x0C, 0xC0, 0x60, 0xF5,
      0x79, 0x5E, 0x00, 0xDA, 0x41, 0x6D, 0x2C, 0x17, 0xDA, 0xE4, 0xA3, 0x17, 0x04, 0xA0,
      0x85, 0xF3, 0x69, 0x77]"
  by code_simp

lemma user_id_key:
  "sha256
     [0x55, 0x73, 0x65, 0x72, 0x2D, 0x49, 0x44, 0x2D, 0x32] =
     [0x79, 0xA5, 0xC8, 0x1C, 0x2D, 0x1E, 0x93, 0x9C, 0xF1, 0x48, 0x0C, 0xC0, 0x60, 0xF5,
      0x79, 0x5E, 0x00, 0xDA, 0x41, 0x6D, 0x2C, 0x17, 0xDA, 0xE4, 0xA3, 0x17, 0x04, 0xA0,
      0x85, 0xF3, 0x69, 0x77]"
  by (simp only: sha256_def user_id_key_blocks list.map foldl.simps user_id_key_compress_1 user_id_key_digest)

lemma user_id_inner_message:
  "map (\<lambda>b. b XOR 0x36)
     ([0x79, 0xA5, 0xC8, 0x1C, 0x2D, 0x1E, 0x93, 0x9C, 0xF1, 0x48, 0x0C, 0xC0, 0x60, 0xF5,
       0x79, 0x5E, 0x00, 0xDA, 0x41, 0x6D, 0x2C, 0x17, 0xDA, 0xE4, 0xA3, 0x17, 0x04, 0xA0,
       0x85, 0xF3, 0x69, 0x77] @ replicate 32 0)
   @ [0x55, 0x73, 0x65, 0x72, 0x2D, 0x49, 0x44, 0x2D, 0x32] =
     ([0x4F, 0x93, 0xFE, 0x2A, 0x1B, 0x28, 0xA5, 0xAA, 0xC7, 0x7E, 0x3A, 0xF6, 0x56, 0xC3,
       0x4F, 0x68, 0x36, 0xEC, 0x77, 0x5B, 0x1A, 0x21, 0xEC, 0xD2, 0x95, 0x21, 0x32, 0x96,
       0xB3, 0xC5, 0x5F, 0x41, 0x36, 0x36, 0x36, 0x36, 0x36, 0x36, 0x36, 0x36, 0x36, 0x36,
       0x36, 0x36, 0x36, 0x36, 0x36, 0x36, 0x36, 0x36, 0x36, 0x36, 0x36, 0x36, 0x36, 0x36,
       0x36, 0x36, 0x36, 0x36, 0x36, 0x36, 0x36, 0x36, 0x55, 0x73, 0x65, 0x72, 0x2D, 0x49,
       0x44, 0x2D, 0x32] :: bytes)"
  by code_simp

lemma user_id_inner_blocks:
  "map block_words (chunks 64 (pad
     [0x4F, 0x93, 0xFE, 0x2A, 0x1B, 0x28, 0xA5, 0xAA, 0xC7, 0x7E, 0x3A, 0xF6, 0x56, 0xC3,
      0x4F, 0x68, 0x36, 0xEC, 0x77, 0x5B, 0x1A, 0x21, 0xEC, 0xD2, 0x95, 0x21, 0x32, 0x96,
      0xB3, 0xC5, 0x5F, 0x41, 0x36, 0x36, 0x36, 0x36, 0x36, 0x36, 0x36, 0x36, 0x36, 0x36,
      0x36, 0x36, 0x36, 0x36, 0x36, 0x36, 0x36, 0x36, 0x36, 0x36, 0x36, 0x36, 0x36, 0x36,
      0x36, 0x36, 0x36, 0x36, 0x36, 0x36, 0x36, 0x36, 0x55, 0x73, 0x65, 0x72, 0x2D, 0x49,
      0x44, 0x2D, 0x32])) =
     [[0x4F93FE2A, 0x1B28A5AA, 0xC77E3AF6, 0x56C34F68, 0x36EC775B, 0x1A21ECD2, 0x95213296,
        0xB3C55F41, 0x36363636, 0x36363636, 0x36363636, 0x36363636, 0x36363636, 0x36363636,
        0x36363636, 0x36363636],
      [0x55736572, 0x2D49442D, 0x32800000, 0x00000000, 0x00000000, 0x00000000, 0x00000000,
        0x00000000, 0x00000000, 0x00000000, 0x00000000, 0x00000000, 0x00000000, 0x00000000,
        0x00000000, 0x00000248]]"
  by code_simp

lemma user_id_inner_compress_1:
  "compress initial_chaining
     [0x4F93FE2A, 0x1B28A5AA, 0xC77E3AF6, 0x56C34F68, 0x36EC775B, 0x1A21ECD2, 0x95213296,
      0xB3C55F41, 0x36363636, 0x36363636, 0x36363636, 0x36363636, 0x36363636, 0x36363636,
      0x36363636, 0x36363636] =
     (0x5DFB56A4, 0x6AABFF42, 0xE2CFE031, 0xEDDA6675, 0xEC3E4A77, 0x868FD678, 0xD4278C37,
      0xCD440616)"
  by code_simp

lemma user_id_inner_compress_2:
  "compress 
     (0x5DFB56A4, 0x6AABFF42, 0xE2CFE031, 0xEDDA6675, 0xEC3E4A77, 0x868FD678, 0xD4278C37,
      0xCD440616)
     [0x55736572, 0x2D49442D, 0x32800000, 0x00000000, 0x00000000, 0x00000000, 0x00000000,
      0x00000000, 0x00000000, 0x00000000, 0x00000000, 0x00000000, 0x00000000, 0x00000000,
      0x00000000, 0x00000248] =
     (0x40055CBE, 0x8F22CF77, 0xACE0D925, 0xE82B0023, 0x2B618121, 0x5670608E, 0xC6EA1AD1,
      0x152763C2)"
  by code_simp

lemma user_id_inner_digest:
  "chaining_bytes
     (0x40055CBE, 0x8F22CF77, 0xACE0D925, 0xE82B0023, 0x2B618121, 0x5670608E, 0xC6EA1AD1,
      0x152763C2) =
     [0x40, 0x05, 0x5C, 0xBE, 0x8F, 0x22, 0xCF, 0x77, 0xAC, 0xE0, 0xD9, 0x25, 0xE8, 0x2B,
      0x00, 0x23, 0x2B, 0x61, 0x81, 0x21, 0x56, 0x70, 0x60, 0x8E, 0xC6, 0xEA, 0x1A, 0xD1,
      0x15, 0x27, 0x63, 0xC2]"
  by code_simp

lemma user_id_inner:
  "sha256
     [0x4F, 0x93, 0xFE, 0x2A, 0x1B, 0x28, 0xA5, 0xAA, 0xC7, 0x7E, 0x3A, 0xF6, 0x56, 0xC3,
      0x4F, 0x68, 0x36, 0xEC, 0x77, 0x5B, 0x1A, 0x21, 0xEC, 0xD2, 0x95, 0x21, 0x32, 0x96,
      0xB3, 0xC5, 0x5F, 0x41, 0x36, 0x36, 0x36, 0x36, 0x36, 0x36, 0x36, 0x36, 0x36, 0x36,
      0x36, 0x36, 0x36, 0x36, 0x36, 0x36, 0x36, 0x36, 0x36, 0x36, 0x36, 0x36, 0x36, 0x36,
      0x36, 0x36, 0x36, 0x36, 0x36, 0x36, 0x36, 0x36, 0x55, 0x73, 0x65, 0x72, 0x2D, 0x49,
      0x44, 0x2D, 0x32] =
     [0x40, 0x05, 0x5C, 0xBE, 0x8F, 0x22, 0xCF, 0x77, 0xAC, 0xE0, 0xD9, 0x25, 0xE8, 0x2B,
      0x00, 0x23, 0x2B, 0x61, 0x81, 0x21, 0x56, 0x70, 0x60, 0x8E, 0xC6, 0xEA, 0x1A, 0xD1,
      0x15, 0x27, 0x63, 0xC2]"
  by (simp only: sha256_def user_id_inner_blocks list.map foldl.simps user_id_inner_compress_1 user_id_inner_compress_2 user_id_inner_digest)

lemma user_id_outer_message:
  "map (\<lambda>b. b XOR 0x5C)
     ([0x79, 0xA5, 0xC8, 0x1C, 0x2D, 0x1E, 0x93, 0x9C, 0xF1, 0x48, 0x0C, 0xC0, 0x60, 0xF5,
       0x79, 0x5E, 0x00, 0xDA, 0x41, 0x6D, 0x2C, 0x17, 0xDA, 0xE4, 0xA3, 0x17, 0x04, 0xA0,
       0x85, 0xF3, 0x69, 0x77] @ replicate 32 0)
   @ [0x40, 0x05, 0x5C, 0xBE, 0x8F, 0x22, 0xCF, 0x77, 0xAC, 0xE0, 0xD9, 0x25, 0xE8, 0x2B,
       0x00, 0x23, 0x2B, 0x61, 0x81, 0x21, 0x56, 0x70, 0x60, 0x8E, 0xC6, 0xEA, 0x1A, 0xD1,
       0x15, 0x27, 0x63, 0xC2] =
     ([0x25, 0xF9, 0x94, 0x40, 0x71, 0x42, 0xCF, 0xC0, 0xAD, 0x14, 0x50, 0x9C, 0x3C, 0xA9,
       0x25, 0x02, 0x5C, 0x86, 0x1D, 0x31, 0x70, 0x4B, 0x86, 0xB8, 0xFF, 0x4B, 0x58, 0xFC,
       0xD9, 0xAF, 0x35, 0x2B, 0x5C, 0x5C, 0x5C, 0x5C, 0x5C, 0x5C, 0x5C, 0x5C, 0x5C, 0x5C,
       0x5C, 0x5C, 0x5C, 0x5C, 0x5C, 0x5C, 0x5C, 0x5C, 0x5C, 0x5C, 0x5C, 0x5C, 0x5C, 0x5C,
       0x5C, 0x5C, 0x5C, 0x5C, 0x5C, 0x5C, 0x5C, 0x5C, 0x40, 0x05, 0x5C, 0xBE, 0x8F, 0x22,
       0xCF, 0x77, 0xAC, 0xE0, 0xD9, 0x25, 0xE8, 0x2B, 0x00, 0x23, 0x2B, 0x61, 0x81, 0x21,
       0x56, 0x70, 0x60, 0x8E, 0xC6, 0xEA, 0x1A, 0xD1, 0x15, 0x27, 0x63, 0xC2] :: bytes)"
  by code_simp

lemma user_id_outer_blocks:
  "map block_words (chunks 64 (pad
     [0x25, 0xF9, 0x94, 0x40, 0x71, 0x42, 0xCF, 0xC0, 0xAD, 0x14, 0x50, 0x9C, 0x3C, 0xA9,
      0x25, 0x02, 0x5C, 0x86, 0x1D, 0x31, 0x70, 0x4B, 0x86, 0xB8, 0xFF, 0x4B, 0x58, 0xFC,
      0xD9, 0xAF, 0x35, 0x2B, 0x5C, 0x5C, 0x5C, 0x5C, 0x5C, 0x5C, 0x5C, 0x5C, 0x5C, 0x5C,
      0x5C, 0x5C, 0x5C, 0x5C, 0x5C, 0x5C, 0x5C, 0x5C, 0x5C, 0x5C, 0x5C, 0x5C, 0x5C, 0x5C,
      0x5C, 0x5C, 0x5C, 0x5C, 0x5C, 0x5C, 0x5C, 0x5C, 0x40, 0x05, 0x5C, 0xBE, 0x8F, 0x22,
      0xCF, 0x77, 0xAC, 0xE0, 0xD9, 0x25, 0xE8, 0x2B, 0x00, 0x23, 0x2B, 0x61, 0x81, 0x21,
      0x56, 0x70, 0x60, 0x8E, 0xC6, 0xEA, 0x1A, 0xD1, 0x15, 0x27, 0x63, 0xC2])) =
     [[0x25F99440, 0x7142CFC0, 0xAD14509C, 0x3CA92502, 0x5C861D31, 0x704B86B8, 0xFF4B58FC,
        0xD9AF352B, 0x5C5C5C5C, 0x5C5C5C5C, 0x5C5C5C5C, 0x5C5C5C5C, 0x5C5C5C5C, 0x5C5C5C5C,
        0x5C5C5C5C, 0x5C5C5C5C],
      [0x40055CBE, 0x8F22CF77, 0xACE0D925, 0xE82B0023, 0x2B618121, 0x5670608E, 0xC6EA1AD1,
        0x152763C2, 0x80000000, 0x00000000, 0x00000000, 0x00000000, 0x00000000, 0x00000000,
        0x00000000, 0x00000300]]"
  by code_simp

lemma user_id_outer_compress_1:
  "compress initial_chaining
     [0x25F99440, 0x7142CFC0, 0xAD14509C, 0x3CA92502, 0x5C861D31, 0x704B86B8, 0xFF4B58FC,
      0xD9AF352B, 0x5C5C5C5C, 0x5C5C5C5C, 0x5C5C5C5C, 0x5C5C5C5C, 0x5C5C5C5C, 0x5C5C5C5C,
      0x5C5C5C5C, 0x5C5C5C5C] =
     (0x5894877A, 0x4BAD5FE2, 0x9F48625E, 0x12C42782, 0x1FB48D7A, 0x18D59674, 0xBB85AED1,
      0x073C32E3)"
  by code_simp

lemma user_id_outer_compress_2:
  "compress 
     (0x5894877A, 0x4BAD5FE2, 0x9F48625E, 0x12C42782, 0x1FB48D7A, 0x18D59674, 0xBB85AED1,
      0x073C32E3)
     [0x40055CBE, 0x8F22CF77, 0xACE0D925, 0xE82B0023, 0x2B618121, 0x5670608E, 0xC6EA1AD1,
      0x152763C2, 0x80000000, 0x00000000, 0x00000000, 0x00000000, 0x00000000, 0x00000000,
      0x00000000, 0x00000300] =
     (0x19FB70F4, 0x01EA7E96, 0xDDA84B6E, 0x1D456E51, 0x92C445FB, 0xB39DA9F0, 0x02D43B7F,
      0x6CB3BDE6)"
  by code_simp

lemma user_id_outer_digest:
  "chaining_bytes
     (0x19FB70F4, 0x01EA7E96, 0xDDA84B6E, 0x1D456E51, 0x92C445FB, 0xB39DA9F0, 0x02D43B7F,
      0x6CB3BDE6) =
     [0x19, 0xFB, 0x70, 0xF4, 0x01, 0xEA, 0x7E, 0x96, 0xDD, 0xA8, 0x4B, 0x6E, 0x1D, 0x45,
      0x6E, 0x51, 0x92, 0xC4, 0x45, 0xFB, 0xB3, 0x9D, 0xA9, 0xF0, 0x02, 0xD4, 0x3B, 0x7F,
      0x6C, 0xB3, 0xBD, 0xE6]"
  by code_simp

lemma user_id_outer:
  "sha256
     [0x25, 0xF9, 0x94, 0x40, 0x71, 0x42, 0xCF, 0xC0, 0xAD, 0x14, 0x50, 0x9C, 0x3C, 0xA9,
      0x25, 0x02, 0x5C, 0x86, 0x1D, 0x31, 0x70, 0x4B, 0x86, 0xB8, 0xFF, 0x4B, 0x58, 0xFC,
      0xD9, 0xAF, 0x35, 0x2B, 0x5C, 0x5C, 0x5C, 0x5C, 0x5C, 0x5C, 0x5C, 0x5C, 0x5C, 0x5C,
      0x5C, 0x5C, 0x5C, 0x5C, 0x5C, 0x5C, 0x5C, 0x5C, 0x5C, 0x5C, 0x5C, 0x5C, 0x5C, 0x5C,
      0x5C, 0x5C, 0x5C, 0x5C, 0x5C, 0x5C, 0x5C, 0x5C, 0x40, 0x05, 0x5C, 0xBE, 0x8F, 0x22,
      0xCF, 0x77, 0xAC, 0xE0, 0xD9, 0x25, 0xE8, 0x2B, 0x00, 0x23, 0x2B, 0x61, 0x81, 0x21,
      0x56, 0x70, 0x60, 0x8E, 0xC6, 0xEA, 0x1A, 0xD1, 0x15, 0x27, 0x63, 0xC2] =
     [0x19, 0xFB, 0x70, 0xF4, 0x01, 0xEA, 0x7E, 0x96, 0xDD, 0xA8, 0x4B, 0x6E, 0x1D, 0x45,
      0x6E, 0x51, 0x92, 0xC4, 0x45, 0xFB, 0xB3, 0x9D, 0xA9, 0xF0, 0x02, 0xD4, 0x3B, 0x7F,
      0x6C, 0xB3, 0xBD, 0xE6]"
  by (simp only: sha256_def user_id_outer_blocks list.map foldl.simps user_id_outer_compress_1 user_id_outer_compress_2 user_id_outer_digest)

lemma hmac_user_id:
  "hmac_sha256
     (sha256 [0x55, 0x73, 0x65, 0x72, 0x2D, 0x49, 0x44, 0x2D, 0x32])
     [0x55, 0x73, 0x65, 0x72, 0x2D, 0x49, 0x44, 0x2D, 0x32] =
     [0x19, 0xFB, 0x70, 0xF4, 0x01, 0xEA, 0x7E, 0x96, 0xDD, 0xA8, 0x4B, 0x6E, 0x1D, 0x45,
      0x6E, 0x51, 0x92, 0xC4, 0x45, 0xFB, 0xB3, 0x9D, 0xA9, 0xF0, 0x02, 0xD4, 0x3B, 0x7F,
      0x6C, 0xB3, 0xBD, 0xE6]"
  by (subst hmac_sha256_digest_key)
    (simp only: user_id_key user_id_inner_message user_id_inner
       user_id_outer_message user_id_outer)

section \<open>The salt expander\<close>

text \<open>
  C1: for every non-empty seed, \<open>randomize_salt\<close> computes the self-keyed construction
  of the specification with SHA-256 as the hash and HMAC-SHA256 as the keyed PRF: the
  internal key is \<open>K = SHA-256(seed)\<close> and the result is the whole HMAC-SHA256 digest of
  the seed under \<open>K\<close>.
\<close>

theorem randomize_salt_self_keyed:
  "seed \<noteq> [] \<Longrightarrow> randomize_salt seed = Inr (self_keyed_expansion sha256 hmac_sha256 seed)"
  by (simp add: randomize_salt_def self_keyed_expansion_def)

theorem randomize_salt_self_keyed_witness:
  "[0x55, 0x73, 0x65, 0x72, 0x2D, 0x49, 0x44, 0x2D, 0x32] \<noteq> ([] :: bytes) \<and>
   (randomize_salt [0x55, 0x73, 0x65, 0x72, 0x2D, 0x49, 0x44, 0x2D, 0x32]
      :: unit kdf_error + bytes)
     = Inr (self_keyed_expansion sha256 hmac_sha256
              [0x55, 0x73, 0x65, 0x72, 0x2D, 0x49, 0x44, 0x2D, 0x32]) \<and>
   self_keyed_expansion sha256 hmac_sha256
     [0x55, 0x73, 0x65, 0x72, 0x2D, 0x49, 0x44, 0x2D, 0x32] =
     [0x19, 0xFB, 0x70, 0xF4, 0x01, 0xEA, 0x7E, 0x96, 0xDD, 0xA8, 0x4B, 0x6E, 0x1D, 0x45, 0x6E,
      0x51, 0x92, 0xC4, 0x45, 0xFB, 0xB3, 0x9D, 0xA9, 0xF0, 0x02, 0xD4, 0x3B, 0x7F, 0x6C, 0xB3,
      0xBD, 0xE6]"
  using randomize_salt_self_keyed [of "[0x55, 0x73, 0x65, 0x72, 0x2D, 0x49, 0x44, 0x2D, 0x32]"]
  by (simp add: self_keyed_expansion_def hmac_user_id)

text \<open>
  C3: both operations are deterministic, as a statement about two calls with the same
  arguments. Two calls of \<open>randomize_salt\<close> return the same result whatever the store of
  objects is when each of them starts, in particular when the second starts in the
  store the first has left. Two calls of \<open>derive_key\<close> end alike, with the same key or the
  same error, whatever the environment is when each of them starts, provided the
  external primitive is deterministic as the specification requires of it.
\<close>

theorem two_calls_agree:
  fixes prim :: "('e, 'w) primitive_st"
    and objects1 objects2 :: store
  assumes "deterministic_primitive prim"
  shows
    "(fst (randomize_salt_st seed objects1) :: 'e kdf_error + bytes)
       = fst (randomize_salt_st seed objects2) \<and>
     fst (derive_key_st prim password salt time_cost memory_cost parallelism hash_len env1)
       = fst (derive_key_st prim password salt time_cost memory_cost parallelism hash_len env2)"
proof
  show "(fst (randomize_salt_st seed objects1) :: 'e kdf_error + bytes)
          = fst (randomize_salt_st seed objects2)"
    by (simp add: randomize_salt_st_result)
next
  show "fst (derive_key_st prim password salt time_cost memory_cost parallelism hash_len env1)
          = fst (derive_key_st prim password salt time_cost memory_cost parallelism hash_len env2)"
  proof (cases "salt = []")
    case True
    then show ?thesis by (simp add: derive_key_st_def)
  next
    case False
    show ?thesis
    proof (cases "utf8_encode password")
      case None
      with False show ?thesis by (simp add: derive_key_st_def)
    next
      case (Some secret)
      from assms
      have "fst (prim secret salt time_cost memory_cost parallelism hash_len Type_ID env1)
              = fst (prim secret salt time_cost memory_cost parallelism hash_len Type_ID env2)"
        unfolding deterministic_primitive_def by blast
      with False Some show ?thesis
        by (auto simp: derive_key_st_def split: prod.splits sum.splits)
    qed
  qed
qed

text \<open>
  The second call run in the state that the first call has left: the store then holds
  the object of the first call, and the environment has counted one call.
\<close>

theorem two_calls_agree_witness:
  "(fst (randomize_salt_st [0x55]
           (snd (randomize_salt_st [0x55] [] :: (unit kdf_error + bytes) \<times> store)))
      :: primitive_error kdf_error + bytes)
     = fst (randomize_salt_st [0x55] []) \<and>
   fst (derive_key_st counting_primitive [0x70, 0x77] [0x01] 5 65536 4 32
          (snd (derive_key_st counting_primitive [0x70, 0x77] [0x01] 5 65536 4 32 0)))
     = fst (derive_key_st counting_primitive [0x70, 0x77] [0x01] 5 65536 4 32 0) \<and>
   derive_key_st counting_primitive [0x70, 0x77] [0x01] 5 65536 4 32 0
     = (Inr (replicate 32 0), 1)"
  using two_calls_agree [OF counting_deterministic,
      of "[0x55]" "snd (randomize_salt_st [0x55] [] :: (unit kdf_error + bytes) \<times> store)" "[]"
         "[0x70, 0x77]" "[0x01]" 5 65536 4 32
         "snd (derive_key_st counting_primitive [0x70, 0x77] [0x01] 5 65536 4 32 0)" 0]
  by (simp add: derive_key_st_def utf8_char_def counting_primitive_def sample_primitive_def)

text \<open>
  C4: for every non-empty seed, of any length, \<open>randomize_salt\<close> returns exactly 32 octets.
\<close>

theorem randomize_salt_length:
  "seed \<noteq> [] \<Longrightarrow> \<exists>salt. randomize_salt seed = Inr salt \<and> length salt = 32"
  by (simp add: randomize_salt_def length_hmac_sha256)

theorem randomize_salt_length_witness:
  "(\<exists>salt. (randomize_salt [0x41] :: unit kdf_error + bytes) = Inr salt \<and> length salt = 32) \<and>
   (\<exists>salt. (randomize_salt (replicate 64 0x41) :: unit kdf_error + bytes) = Inr salt
            \<and> length salt = 32) \<and>
   (\<exists>salt. (randomize_salt (replicate 10000 0x41) :: unit kdf_error + bytes) = Inr salt
            \<and> length salt = 32)"
proof -
  have one: "[0x41] \<noteq> ([] :: bytes)" by simp
  have mid: "replicate 64 0x41 \<noteq> ([] :: bytes)" by simp
  have long: "replicate 10000 0x41 \<noteq> ([] :: bytes)" by simp
  show ?thesis
    using randomize_salt_length [OF one] randomize_salt_length [OF mid]
      randomize_salt_length [OF long]
    by blast
qed

text \<open>
  C5: \<open>randomize_salt\<close> on the empty byte string fails with the \<open>ValueError\<close> of the source
  (the specification's \<open>InvalidInputError\<close>), and it fails in no other case: on every
  non-empty seed it returns a salt.
\<close>

theorem randomize_salt_failure:
  "(seed = [] \<longrightarrow>
      randomize_salt seed = Inl (ValueError ''User-provided salt must not be empty.'')) \<and>
   (seed \<noteq> [] \<longrightarrow> (\<exists>salt. randomize_salt seed = Inr salt))"
  by (simp add: randomize_salt_def)

theorem randomize_salt_failure_witness:
  "(randomize_salt [] :: unit kdf_error + bytes)
     = Inl (ValueError ''User-provided salt must not be empty.'') \<and>
   (\<exists>salt. (randomize_salt [0x55] :: unit kdf_error + bytes) = Inr salt)"
  using randomize_salt_failure [of "[]"] randomize_salt_failure [of "[0x55]"]
  by simp

section \<open>The key deriver\<close>

text \<open>
  The claim that \<open>derive_key\<close> delegates for every password fails on a password that
  has no UTF-8 encoding: with the lone surrogate \<open>U+D800\<close> the call ends in
  \<open>UnicodeEncodeError\<close>, although the primitive would have answered any secret it was
  given.
\<close>

theorem derive_key_surrogate_password:
  "derive_key sample_primitive [0xD800] [0x01] 5 65536 4 32 = Inl UnicodeEncodeError \<and>
   (\<forall>secret. sample_primitive secret [0x01] 5 65536 4 32 Type_ID = Inr (replicate 32 0))"
  by (simp add: derive_key_def utf8_char_def sample_primitive_def)

text \<open>
  C2 (amended): for every password that has a UTF-8 encoding, every non-empty salt and
  all parameters, \<open>derive_key\<close> is one call of the external primitive, with the UTF-8
  octets of the password as the secret, the salt as given, \<open>time_cost\<close>, \<open>memory_cost\<close>,
  \<open>parallelism\<close> and \<open>hash_len\<close> unchanged and the variant Argon2id; the outcome of that
  call, hash or error, is the outcome of \<open>derive_key\<close>.
\<close>

theorem derive_key_delegates:
  "salt \<noteq> [] \<Longrightarrow> utf8_encode password = Some secret \<Longrightarrow>
   derive_key prim password salt time_cost memory_cost parallelism hash_len =
     (case prim secret salt time_cost memory_cost parallelism hash_len Type_ID of
        Inl e \<Rightarrow> Inl (PrimitiveError e)
      | Inr derived_key \<Rightarrow> Inr derived_key)"
  by (simp add: derive_key_def)

theorem derive_key_delegates_witness:
  "[0x01] \<noteq> ([] :: bytes) \<and> utf8_encode [0x70, 0x77] = Some [0x70, 0x77] \<and>
   derive_key sample_primitive [0x70, 0x77] [0x01] 5 65536 4 32 = Inr (replicate 32 0)"
  using derive_key_delegates
    [of "[0x01]" "[0x70, 0x77]" "[0x70, 0x77]" sample_primitive 5 65536 4 32]
  by (simp add: utf8_char_def sample_primitive_def)

text \<open>
  C6: with an empty salt \<open>derive_key\<close> fails with the \<open>ValueError\<close> of the source (the
  specification's \<open>InvalidInputError\<close>), for every password, all parameters and every
  primitive: the check is \<open>derive_key\<close>'s own, made before anything else, and does not
  depend on \<open>randomize_salt\<close>.
\<close>

theorem derive_key_empty_salt:
  "derive_key prim password [] time_cost memory_cost parallelism hash_len
     = Inl (ValueError ''Salt must be provided and cannot be empty.'')"
  by (simp add: derive_key_def)

text \<open>
  The claim that a zero cost parameter ends in \<open>InvalidParameterError\<close> for every
  password fails on the same password: the encoding error comes first.
\<close>

theorem derive_key_surrogate_zero_time_cost:
  "rejects_nonpositive_cost sample_primitive \<and>
   derive_key sample_primitive [0xD800] [0x01] 0 65536 4 32 = Inl UnicodeEncodeError \<and>
   derive_key sample_primitive [0xD800] [0x01] 0 65536 4 32
     \<noteq> Inl (PrimitiveError InvalidParameterError)"
  by (simp add: sample_rejects derive_key_def utf8_char_def)

text \<open>
  C7 (amended): \<open>derive_key\<close> checks no cost parameter itself. For every password that has
  a UTF-8 encoding and every non-empty salt, a call with \<open>time_cost\<close>, \<open>memory_cost\<close> or
  \<open>parallelism\<close> non-positive reaches the primitive, and the \<open>InvalidParameterError\<close>
  with which a primitive meeting the contract rejects it is the error of \<open>derive_key\<close>.
\<close>

theorem derive_key_nonpositive_cost:
  assumes "rejects_nonpositive_cost prim"
    and "salt \<noteq> []"
    and "utf8_encode password \<noteq> None"
    and "time_cost \<le> 0 \<or> memory_cost \<le> 0 \<or> parallelism \<le> 0"
  shows "derive_key prim password salt time_cost memory_cost parallelism hash_len
           = Inl (PrimitiveError InvalidParameterError)"
proof -
  from assms(3) obtain secret where enc: "utf8_encode password = Some secret"
    by blast
  from assms(1,4)
  have "prim secret salt time_cost memory_cost parallelism hash_len Type_ID
          = Inl InvalidParameterError"
    unfolding rejects_nonpositive_cost_def by blast
  with assms(2) enc show ?thesis
    by (simp add: derive_key_def)
qed

theorem derive_key_nonpositive_cost_witness:
  "derive_key sample_primitive [0x70, 0x77] [0x01] 0 65536 4 32
     = Inl (PrimitiveError InvalidParameterError) \<and>
   derive_key sample_primitive [0x70, 0x77] [0x01] 5 65536 0 32
     = Inl (PrimitiveError InvalidParameterError)"
proof -
  have salt: "[0x01] \<noteq> ([] :: bytes)" by simp
  have enc: "utf8_encode [0x70, 0x77] \<noteq> None" by (simp add: utf8_char_def)
  have t: "(0::int) \<le> 0 \<or> (65536::int) \<le> 0 \<or> (4::int) \<le> 0" by simp
  have p: "(5::int) \<le> 0 \<or> (65536::int) \<le> 0 \<or> (0::int) \<le> 0" by simp
  show ?thesis
    using derive_key_nonpositive_cost [OF sample_rejects salt enc t]
      derive_key_nonpositive_cost [OF sample_rejects salt enc p]
    by simp
qed

text \<open>
  C8: \<open>derive_key\<close> returns the hash of the primitive as it is, so with a primitive
  whose hashes have \<open>hash_len\<close> octets every key that \<open>derive_key\<close> returns has
  exactly \<open>hash_len\<close> octets.
\<close>

theorem derive_key_length:
  assumes "returns_hash_len prim"
    and "derive_key prim password salt time_cost memory_cost parallelism hash_len = Inr key"
  shows "int (length key) = hash_len"
proof -
  from assms(2) obtain secret where
    "prim secret salt time_cost memory_cost parallelism hash_len Type_ID = Inr key"
    by (auto simp: derive_key_def split: if_splits option.splits sum.splits)
  with assms(1) show ?thesis
    unfolding returns_hash_len_def by blast
qed

theorem derive_key_length_witness:
  "derive_key sample_primitive [0x70, 0x77] [0x01] 5 65536 4 16 = Inr (replicate 16 0) \<and>
   int (length (replicate 16 (0 :: byte))) = 16"
proof -
  have run: "derive_key sample_primitive [0x70, 0x77] [0x01] 5 65536 4 16 = Inr (replicate 16 0)"
    by (simp add: derive_key_def utf8_char_def sample_primitive_def)
  show ?thesis
    using run derive_key_length [OF sample_returns run] by simp
qed

text \<open>
  C9: a call that omits the four cost parameters is the call with \<open>time_cost = 2\<close>,
  \<open>memory_cost = 102400\<close>, \<open>parallelism = 8\<close> and \<open>hash_len = 32\<close>.
\<close>

theorem derive_key_call_defaults:
  "derive_key_call prim password salt None None None None
     = derive_key prim password salt 2 102400 8 32"
  by (simp add: derive_key_call_def)

text \<open>
  C10: the empty password is accepted. With a non-empty salt, \<open>derive_key\<close> on the empty
  password calls the primitive with the empty byte string as the secret and ends as
  that call ends; it raises neither the \<open>ValueError\<close> of the salt check nor an encoding
  error.
\<close>

theorem derive_key_empty_password:
  assumes "salt \<noteq> []"
  shows "derive_key prim [] salt time_cost memory_cost parallelism hash_len =
           (case prim [] salt time_cost memory_cost parallelism hash_len Type_ID of
              Inl e \<Rightarrow> Inl (PrimitiveError e)
            | Inr derived_key \<Rightarrow> Inr derived_key) \<and>
         (\<forall>msg. derive_key prim [] salt time_cost memory_cost parallelism hash_len
                  \<noteq> Inl (ValueError msg)) \<and>
         derive_key prim [] salt time_cost memory_cost parallelism hash_len
           \<noteq> Inl UnicodeEncodeError"
  using assms by (simp add: derive_key_def split: sum.splits)

theorem derive_key_empty_password_witness:
  "[0x01] \<noteq> ([] :: bytes) \<and>
   derive_key sample_primitive [] [0x01] 5 65536 4 32 = Inr (replicate 32 0)"
proof -
  have salt: "[0x01] \<noteq> ([] :: bytes)" by simp
  show ?thesis
    using derive_key_empty_password [OF salt, of sample_primitive 5 65536 4 32]
    by (simp add: sample_primitive_def)
qed

end
